theory Spec2Isabelle
  imports Complex_Main "HOL-Library.Log_Nat"
begin

section \<open>Tile arithmetic of projecttile\<close>

text \<open>
  The embedding follows \<^verbatim>\<open>src/projecttile/__init__.py\<close>. Python integers are \<open>int\<close>,
  and every exception the source can raise is a value of \<open>error\<close>. Python floats are
  read in two ways. In the first part they are real numbers and the arithmetic is exact:
  this is the reading for the order of the tiles, the argument parser and the properties
  stated of exact arithmetic. In the second part they are IEEE 754 binary64 numbers, with
  rounding, overflow, infinities and NaN: this is the reading for what the program returns
  or raises at a given input.
\<close>

section \<open>Exact arithmetic\<close>

subsection \<open>Data\<close>

datatype error =
    TileArgParsingError
  | TypeError
  | ValueError
  | ZeroDivisionError
  | UnboundLocalError
  | OverflowError

text \<open>
  A positional argument of the variadic functions \<^verbatim>\<open>ul(*tile)\<close> and
  \<^verbatim>\<open>bounds(*tile)\<close>: a Python int, a Python float, or a sized sequence
  (tuple, list, namedtuple) of such values.
\<close>

datatype pyval = PInt int | PFloat real | PSeq "pyval list"

text \<open>The namedtuples \<^verbatim>\<open>Bbox\<close>, \<^verbatim>\<open>XY\<close> and \<^verbatim>\<open>WMTSTile\<close>. A namedtuple does not
  fix the type of its fields, so the tile is polymorphic: the argument parser fills it
  with raw arguments, \<^verbatim>\<open>tile\<close> and \<^verbatim>\<open>tiles\<close> with integers and a \<open>Bbox\<close>.\<close>

record Bbox =
  left :: real
  bottom :: real
  right :: real
  top :: real

record XY =
  x :: real
  y :: real

record ('n, 'b) WMTSTile =
  x :: 'n
  y :: 'n
  z :: 'n
  provider_bounds :: 'b

text \<open>A \<open>Bbox\<close> passed as a positional argument is the sequence of its four fields.\<close>

definition bbox_val :: "Bbox \<Rightarrow> pyval" where
  "bbox_val pb = PSeq [PFloat (left pb), PFloat (bottom pb), PFloat (right pb), PFloat (Bbox.top pb)]"

text \<open>A tile passed as one positional argument is the sequence of its four fields.\<close>

definition tile_val :: "(int, Bbox) WMTSTile \<Rightarrow> pyval" where
  "tile_val t = PSeq [PInt (WMTSTile.x t), PInt (WMTSTile.y t), PInt (WMTSTile.z t),
                      bbox_val (provider_bounds t)]"

subsection \<open>Dynamic typing of the arguments\<close>

text \<open>The number a Python int or float stands for; a sequence in an arithmetic
  expression with a float raises \<^verbatim>\<open>TypeError\<close>.\<close>

fun as_num :: "pyval \<Rightarrow> error + real" where
  "as_num (PInt i) = Inr (of_int i)"
| "as_num (PFloat r) = Inr r"
| "as_num (PSeq vs) = Inl TypeError"

text \<open>\<^verbatim>\<open>2.0 ** zoom\<close>.\<close>

fun pow2 :: "pyval \<Rightarrow> error + real" where
  "pow2 (PInt k) = Inr (2 powi k)"
| "pow2 (PFloat r) = Inr (2 powr r)"
| "pow2 (PSeq vs) = Inl TypeError"

text \<open>\<^verbatim>\<open>v + 1\<close>.\<close>

fun add1 :: "pyval \<Rightarrow> error + pyval" where
  "add1 (PInt i) = Inr (PInt (i + 1))"
| "add1 (PFloat r) = Inr (PFloat (r + 1))"
| "add1 (PSeq vs) = Inl TypeError"

text \<open>\<^verbatim>\<open>left, bottom, right, top = provider_bounds\<close>: a value that is not iterable
  raises \<^verbatim>\<open>TypeError\<close>, a sequence of another length \<^verbatim>\<open>ValueError\<close>. The four
  components are then used as numbers only, so a component that is a sequence raises
  \<^verbatim>\<open>TypeError\<close> at its first use; nothing is observable in between.\<close>

fun unpack_bounds :: "pyval \<Rightarrow> error + Bbox" where
  "unpack_bounds (PSeq [l, b, r, t]) =
     (case (as_num l, as_num b, as_num r, as_num t) of
        (Inr l', Inr b', Inr r', Inr t') \<Rightarrow> Inr \<lparr>left = l', bottom = b', right = r', Bbox.top = t'\<rparr>
      | _ \<Rightarrow> Inl TypeError)"
| "unpack_bounds (PSeq vs) = Inl ValueError"
| "unpack_bounds v = Inl TypeError"

subsection \<open>The argument parser, \<^verbatim>\<open>ul\<close> and \<^verbatim>\<open>bounds\<close>\<close>

text \<open>Sequencing of statements that may raise: the first exception ends the call.\<close>

definition andthen :: "error + 'a \<Rightarrow> ('a \<Rightarrow> error + 'b) \<Rightarrow> error + 'b" where
  "andthen r f = (case r of Inl err \<Rightarrow> Inl err | Inr v \<Rightarrow> f v)"

text \<open>\<^verbatim>\<open>_parse_tile_arg(*args)\<close>: \<open>args\<close> is the tuple of positional arguments. With
  one argument, \<^verbatim>\<open>args = args[0]\<close>; \<^verbatim>\<open>len\<close> of a number raises \<^verbatim>\<open>TypeError\<close>.\<close>

definition parse_tile_arg :: "pyval list \<Rightarrow> error + (pyval, pyval) WMTSTile" where
  "parse_tile_arg args =
     (case (if length args = 1 then hd args else PSeq args) of
        PSeq vs \<Rightarrow>
          if length vs = 4
          then Inr \<lparr>x = vs ! 0, y = vs ! 1, z = vs ! 2, provider_bounds = vs ! 3\<rparr>
          else Inl TileArgParsingError
      | PInt i \<Rightarrow> Inl TypeError
      | PFloat r \<Rightarrow> Inl TypeError)"

definition ul :: "pyval list \<Rightarrow> error + XY" where
  "ul args =
     andthen (parse_tile_arg args) (\<lambda>t.
     andthen (unpack_bounds (provider_bounds t)) (\<lambda>pb.
     andthen (pow2 (WMTSTile.z t)) (\<lambda>n.
       let tile_dx = (right pb - left pb) / n;
           tile_dy = (Bbox.top pb - bottom pb) / n
       in andthen (as_num (WMTSTile.x t)) (\<lambda>xtile.
          andthen (as_num (WMTSTile.y t)) (\<lambda>ytile.
            Inr \<lparr>XY.x = left pb + xtile * tile_dx,
                 XY.y = Bbox.top pb - ytile * tile_dy\<rparr>)))))"

definition bounds :: "pyval list \<Rightarrow> error + Bbox" where
  "bounds args =
     andthen (parse_tile_arg args) (\<lambda>t.
     andthen (ul [WMTSTile.x t, WMTSTile.y t, WMTSTile.z t, provider_bounds t]) (\<lambda>a.
     andthen (add1 (WMTSTile.x t)) (\<lambda>xtile1.
     andthen (add1 (WMTSTile.y t)) (\<lambda>ytile1.
     andthen (ul [xtile1, ytile1, WMTSTile.z t, provider_bounds t]) (\<lambda>b.
       Inr \<lparr>left = XY.x a, bottom = XY.y b, right = XY.x b, Bbox.top = XY.y a\<rparr>)))))"

subsection \<open>Points to tiles\<close>

text \<open>\<^verbatim>\<open>truncate_xy\<close>.\<close>

definition truncate_xy :: "real \<Rightarrow> real \<Rightarrow> Bbox \<Rightarrow> real \<times> real" where
  "truncate_xy px py pb =
     (let px' = (if px > right pb then right pb else if px < left pb then left pb else px);
          py' = (if py > Bbox.top pb then Bbox.top pb else if py < bottom pb then bottom pb else py)
      in (px', py'))"

text \<open>\<^verbatim>\<open>_tile\<close>: the fractional tile position of a point. A float division by zero
  raises \<^verbatim>\<open>ZeroDivisionError\<close>. The flag \<^verbatim>\<open>truncate\<close> (here \<open>trunc\<close>) is a parameter of the source
  function and is never read.\<close>

definition tile' :: "real \<Rightarrow> real \<Rightarrow> int \<Rightarrow> Bbox \<Rightarrow> bool \<Rightarrow> error + real \<times> real \<times> int" where
  "tile' px py zoom pb trunc =
     (let n = 2 powi zoom;
          tile_dx = (right pb - left pb) / n;
          tile_dy = (Bbox.top pb - bottom pb) / n
      in if tile_dx = 0 then Inl ZeroDivisionError
         else if tile_dy = 0 then Inl ZeroDivisionError
         else Inr ((px - left pb) / tile_dx, (Bbox.top pb - py) / tile_dy, zoom))"

definition tile :: "real \<Rightarrow> real \<Rightarrow> int \<Rightarrow> Bbox \<Rightarrow> bool \<Rightarrow> error + (int, Bbox) WMTSTile" where
  "tile px py zoom pb trunc =
     (case tile' px py zoom pb trunc of
        Inl err \<Rightarrow> Inl err
      | Inr (xtile, ytile, zoom') \<Rightarrow>
          Inr \<lparr>x = \<lfloor>xtile\<rfloor>, y = \<lfloor>ytile\<rfloor>, z = zoom', provider_bounds = pb\<rparr>)"

subsection \<open>Enumerating the tiles of a bounding box\<close>

text \<open>\<^verbatim>\<open>tiles\<close> is a generator. Its run is the list of the tiles it yields, and the
  exception that ends the iteration early, if there is one.\<close>

type_synonym 'a gen = "'a list \<times> error option"

text \<open>A \<^verbatim>\<open>for\<close> loop in a generator: the yields of the body for each element in turn,
  up to the first exception.\<close>

fun gen_for :: "'a list \<Rightarrow> ('a \<Rightarrow> 'b gen) \<Rightarrow> 'b gen" where
  "gen_for [] body = ([], None)"
| "gen_for (a # as) body =
     (case body a of
        (ys, Some err) \<Rightarrow> (ys, Some err)
      | (ys, None) \<Rightarrow> (case gen_for as body of (ys', r) \<Rightarrow> (ys @ ys', r)))"

text \<open>\<^verbatim>\<open>range(a, b)\<close> on integers.\<close>

definition py_range :: "int \<Rightarrow> int \<Rightarrow> int list" where
  "py_range a b = [a..b - 1]"

text \<open>\<^verbatim>\<open>min(a, 2 ** z)\<close> as the stop of a \<^verbatim>\<open>range\<close>. For \<open>z < 0\<close> the power
  \<^verbatim>\<open>2 ** z\<close> of two Python ints is a float; \<^verbatim>\<open>min\<close> returns it when it is the
  smaller one, and \<^verbatim>\<open>range\<close> then raises \<^verbatim>\<open>TypeError\<close>.\<close>

definition range_stop :: "int \<Rightarrow> int \<Rightarrow> error + int" where
  "range_stop a zoom =
     (if 0 \<le> zoom then Inr (min a (2 ^ nat zoom))
      else if 2 powi zoom < (of_int a :: real) then Inl TypeError
      else Inr a)"

definition epsilon :: real where
  "epsilon = 1 / 10 ^ 9"

text \<open>\<^verbatim>\<open>v % 1\<close> on a float: the result has the sign of the divisor.\<close>

definition mod1 :: "real \<Rightarrow> real" where
  "mod1 v = v - of_int \<lfloor>v\<rfloor>"

text \<open>\<^verbatim>\<open>zooms\<close> is an int or a sequence of ints.\<close>

datatype zooms = Zoom int | Zooms "int list"

text \<open>The two nested loops over \<^verbatim>\<open>range(llx, min(urx + 1, 2 ** z))\<close> and
  \<^verbatim>\<open>range(ury, min(lly + 1, 2 ** z))\<close>, on the floored indices. The stop of the inner
  range is evaluated anew for each column.\<close>

definition tiles_range ::
  "int \<Rightarrow> int \<Rightarrow> int \<Rightarrow> int \<Rightarrow> int \<Rightarrow> 'b \<Rightarrow> (int, 'b) WMTSTile gen" where
  "tiles_range llx urx lly ury zoom pb =
     (case range_stop (urx + 1) zoom of
        Inl err \<Rightarrow> ([], Some err)
      | Inr xstop \<Rightarrow>
          gen_for (py_range llx xstop) (\<lambda>i.
            case range_stop (lly + 1) zoom of
              Inl err \<Rightarrow> ([], Some err)
            | Inr ystop \<Rightarrow>
                gen_for (py_range ury ystop) (\<lambda>j.
                  ([\<lparr>x = i, y = j, z = zoom, provider_bounds = pb\<rparr>], None))))"

text \<open>The body of the loop \<^verbatim>\<open>for z in zooms\<close>, for the clamped box \<open>(w, s, e, n)\<close>.\<close>

definition tiles_zoom ::
  "real \<Rightarrow> real \<Rightarrow> real \<Rightarrow> real \<Rightarrow> Bbox \<Rightarrow> int \<Rightarrow> (int, Bbox) WMTSTile gen" where
  "tiles_zoom w s e n pb zoom =
     (case tile' w s zoom pb False of
        Inl err \<Rightarrow> ([], Some err)
      | Inr (llx, lly, llz) \<Rightarrow>
         (let lly = (if mod1 lly < epsilon / 10 then lly - epsilon else lly)
          in case tile' e n zoom pb False of
               Inl err \<Rightarrow> ([], Some err)
             | Inr (urx, ury, urz) \<Rightarrow>
                (let urx = (if mod1 urx < epsilon / 10 then urx - epsilon else urx);
                     llx = (if llx < 0 then 0 else llx);
                     ury = (if ury < 0 then 0 else ury)
                 in tiles_range \<lfloor>llx\<rfloor> \<lfloor>urx\<rfloor> \<lfloor>lly\<rfloor> \<lfloor>ury\<rfloor> zoom pb)))"

text \<open>\<^verbatim>\<open>tiles\<close>. The local variable \<^verbatim>\<open>bboxes\<close> is assigned in the branch without
  truncation only; in the other branch the truncated corners are assigned to
  \<^verbatim>\<open>west, south, east, north\<close>, which the loop never reads, and the loop header
  \<^verbatim>\<open>for w, s, e, n in bboxes\<close> raises \<^verbatim>\<open>UnboundLocalError\<close>.\<close>

definition tiles ::
  "real \<Rightarrow> real \<Rightarrow> real \<Rightarrow> real \<Rightarrow> zooms \<Rightarrow> Bbox \<Rightarrow> bool \<Rightarrow> (int, Bbox) WMTSTile gen" where
  "tiles west south east north zms pb trunc =
     (let (corners, bboxes) =
            (if trunc
             then ((truncate_xy west south pb, truncate_xy east north pb), None)
             else (((west, south), (east, north)), Some [(west, south, east, north)]))
      in case bboxes of
           None \<Rightarrow> ([], Some UnboundLocalError)
         | Some bbs \<Rightarrow>
             gen_for bbs (\<lambda>(w, s, e, n).
               let w = max (left pb) w;
                   s = max (bottom pb) s;
                   e = min (right pb) e;
                   n = min (Bbox.top pb) n;
                   zs = (case zms of Zoom zoom \<Rightarrow> [zoom] | Zooms zs \<Rightarrow> zs)
               in gen_for zs (tiles_zoom w s e n pb)))"

subsection \<open>Definitions used to state the claims\<close>

text \<open>The provider bounds of the concrete scenarios, \<^verbatim>\<open>Bbox(-100, -100, 100, 100)\<close>.\<close>

definition example_bounds :: Bbox where
  "example_bounds = \<lparr>left = - 100, bottom = - 100, right = 100, Bbox.top = 100\<rparr>"

text \<open>Orders of emission within one zoom. Column-major: columns in ascending order, rows
  ascending within a column. Row-major: rows in ascending order, columns ascending within
  a row.\<close>

definition column_major :: "(int, Bbox) WMTSTile list \<Rightarrow> bool" where
  "column_major ts =
     sorted_wrt (\<lambda>a b. WMTSTile.x a < WMTSTile.x b \<or>
                        (WMTSTile.x a = WMTSTile.x b \<and> WMTSTile.y a < WMTSTile.y b)) ts"

definition row_major :: "(int, Bbox) WMTSTile list \<Rightarrow> bool" where
  "row_major ts =
     sorted_wrt (\<lambda>a b. WMTSTile.y a < WMTSTile.y b \<or>
                        (WMTSTile.y a = WMTSTile.y b \<and> WMTSTile.x a < WMTSTile.x b)) ts"

section \<open>Double-precision arithmetic\<close>

subsection \<open>Doubles and rounding\<close>

text \<open>A double is a rational number, an infinity or NaN. The two zeros are one value:
  the functions below never tell them apart (a division by either raises
  \<^verbatim>\<open>ZeroDivisionError\<close>, and they compare equal).\<close>

datatype f64 = Fin rat | PInf | NInf | NaN

text \<open>The binary exponent \<open>\<lfloor>log\<^sub>2 q\<rfloor>\<close> of a rational \<open>q > 0\<close>, from the bit lengths of
  \<open>\<lfloor>q\<rfloor>\<close> and of \<open>\<lceil>1 / q\<rceil> - 1\<close>.\<close>

definition exponent :: "rat \<Rightarrow> int" where
  "exponent q = (if 1 \<le> q then bitlen \<lfloor>q\<rfloor> - 1 else - bitlen (\<lceil>1 / q\<rceil> - 1))"

text \<open>Rounding to the nearest integer, a tie to the even one.\<close>

definition round_half_even :: "rat \<Rightarrow> int" where
  "round_half_even v =
     (let f = \<lfloor>v\<rfloor>; d = v - of_int f
      in if d < 1 / 2 then f else if 1 / 2 < d then f + 1 else if even f then f else f + 1)"

text \<open>The nearest multiple of \<open>2^e\<close>.\<close>

definition round_at :: "rat \<Rightarrow> int \<Rightarrow> rat" where
  "round_at a e = of_int (round_half_even (a / 2 powi e)) * 2 powi e"

text \<open>The nearest double to a rational \<open>a > 0\<close>, were the exponent unbounded above: 53
  significant bits, and multiples of \<open>2^-1074\<close> below \<open>2^-1022\<close> (subnormal numbers).\<close>

definition round_magnitude :: "rat \<Rightarrow> rat" where
  "round_magnitude a = round_at a (max (exponent a - 52) (- 1074))"

text \<open>A rounded magnitude with exponent above 1023, that is \<open>2^1024\<close> or more, is
  infinity.\<close>

definition clip :: "rat \<Rightarrow> f64" where
  "clip r = (if 0 < r \<and> 1023 < exponent r then PInf else Fin r)"

fun fneg :: "f64 \<Rightarrow> f64" where
  "fneg (Fin q) = Fin (- q)"
| "fneg PInf = NInf"
| "fneg NInf = PInf"
| "fneg NaN = NaN"

text \<open>Round to nearest, ties to even: the double of a float literal and of the exact
  result of an operation.\<close>

definition round64 :: "rat \<Rightarrow> f64" where
  "round64 q =
     (if q = 0 then Fin 0
      else if 0 < q then clip (round_magnitude q)
      else fneg (clip (round_magnitude (- q))))"

subsection \<open>Operations on floats\<close>

text \<open>\<^verbatim>\<open>a + b\<close>, \<^verbatim>\<open>a - b\<close> and \<^verbatim>\<open>a * b\<close> raise nothing: they overflow to an infinity,
  and give NaN on \<open>\<infinity> - \<infinity>\<close> and \<open>0 * \<infinity>\<close>.\<close>

fun fadd :: "f64 \<Rightarrow> f64 \<Rightarrow> f64" where
  "fadd (Fin p) (Fin q) = round64 (p + q)"
| "fadd NaN b = NaN"
| "fadd a NaN = NaN"
| "fadd PInf NInf = NaN"
| "fadd NInf PInf = NaN"
| "fadd PInf b = PInf"
| "fadd NInf b = NInf"
| "fadd a PInf = PInf"
| "fadd a NInf = NInf"

definition fsub :: "f64 \<Rightarrow> f64 \<Rightarrow> f64" where
  "fsub a b = fadd a (fneg b)"

text \<open>The sign of a value other than NaN: negative, zero or positive.\<close>

fun fsgn :: "f64 \<Rightarrow> int" where
  "fsgn (Fin q) = (if q < 0 then - 1 else if q = 0 then 0 else 1)"
| "fsgn PInf = 1"
| "fsgn NInf = - 1"
| "fsgn NaN = 0"

definition inf_of :: "int \<Rightarrow> f64" where
  "inf_of sg = (if sg < 0 then NInf else PInf)"

fun fmul :: "f64 \<Rightarrow> f64 \<Rightarrow> f64" where
  "fmul (Fin p) (Fin q) = round64 (p * q)"
| "fmul NaN b = NaN"
| "fmul a NaN = NaN"
| "fmul a b = (if fsgn a * fsgn b = 0 then NaN else inf_of (fsgn a * fsgn b))"

text \<open>\<^verbatim>\<open>a / b\<close> raises \<^verbatim>\<open>ZeroDivisionError\<close> when \<open>b\<close> is zero, whatever \<open>a\<close> is;
  \<open>fquot\<close> is the quotient otherwise.\<close>

fun fquot :: "f64 \<Rightarrow> f64 \<Rightarrow> f64" where
  "fquot (Fin p) (Fin q) = round64 (p / q)"
| "fquot NaN b = NaN"
| "fquot a NaN = NaN"
| "fquot (Fin p) b = Fin 0"
| "fquot a (Fin q) = inf_of (fsgn a * fsgn (Fin q))"
| "fquot a b = NaN"

definition fdiv :: "f64 \<Rightarrow> f64 \<Rightarrow> error + f64" where
  "fdiv a b = (if b = Fin 0 then Inl ZeroDivisionError else Inr (fquot a b))"

text \<open>\<^verbatim>\<open>a < b\<close>: false when either side is NaN.\<close>

fun flt :: "f64 \<Rightarrow> f64 \<Rightarrow> bool" where
  "flt (Fin p) (Fin q) = (p < q)"
| "flt NaN b = False"
| "flt a NaN = False"
| "flt NInf NInf = False"
| "flt NInf b = True"
| "flt a NInf = False"
| "flt PInf b = False"
| "flt a PInf = True"

text \<open>\<^verbatim>\<open>int(math.floor(a))\<close> raises \<^verbatim>\<open>OverflowError\<close> on an infinity and
  \<^verbatim>\<open>ValueError\<close> on NaN.\<close>

fun ffloor :: "f64 \<Rightarrow> error + int" where
  "ffloor (Fin q) = Inr \<lfloor>q\<rfloor>"
| "ffloor NaN = Inl ValueError"
| "ffloor a = Inl OverflowError"

text \<open>\<^verbatim>\<open>a % 1\<close>: the exact remainder of the truncated division, to which 1 is added
  (and rounded) when it is negative; NaN for an infinity.\<close>

fun fmod1 :: "f64 \<Rightarrow> f64" where
  "fmod1 (Fin q) =
     (if 0 \<le> q then Fin (q - of_int \<lfloor>q\<rfloor>)
      else let r = q - of_int \<lceil>q\<rceil> in if r = 0 then Fin 0 else fadd (Fin r) (Fin 1))"
| "fmod1 a = NaN"

text \<open>\<^verbatim>\<open>2.0 ** zoom\<close> for an int \<open>zoom\<close>: the exact power when it is a double,
  \<^verbatim>\<open>OverflowError\<close> from \<open>2^1024\<close> on, and \<open>0.0\<close> below the smallest double \<open>2^-1074\<close>.\<close>

definition pow2_64 :: "int \<Rightarrow> error + f64" where
  "pow2_64 zoom =
     (if 1024 \<le> zoom then Inl OverflowError
      else if zoom \<le> - 1075 then Inr (Fin 0)
      else Inr (Fin (2 powi zoom)))"

text \<open>A numeric argument is an int or a float. In an operation with a float, an int is
  converted to the nearest double; \<^verbatim>\<open>OverflowError\<close> when that is out of range.\<close>

datatype pynum = PyInt int | PyFloat f64

fun to_f64 :: "pynum \<Rightarrow> error + f64" where
  "to_f64 (PyFloat a) = Inr a"
| "to_f64 (PyInt i) = (case round64 (of_int i) of Fin q \<Rightarrow> Inr (Fin q) | _ \<Rightarrow> Inl OverflowError)"

text \<open>\<^verbatim>\<open>v + 1\<close>.\<close>

fun add1_64 :: "pynum \<Rightarrow> pynum" where
  "add1_64 (PyInt i) = PyInt (i + 1)"
| "add1_64 (PyFloat a) = PyFloat (fadd a (Fin 1))"

subsection \<open>The functions in double arithmetic\<close>

text \<open>\<^verbatim>\<open>Bbox\<close> and \<^verbatim>\<open>XY\<close> with float fields, and the source functions \<^verbatim>\<open>ul\<close>,
  \<^verbatim>\<open>bounds\<close>, \<^verbatim>\<open>truncate_xy\<close>, \<^verbatim>\<open>_tile\<close>, \<^verbatim>\<open>tile\<close> and \<^verbatim>\<open>tiles\<close> again, statement
  by statement, called with four positional arguments: numeric indices, an int zoom and
  provider bounds of floats.\<close>

record Bbox64 =
  left64 :: f64
  bottom64 :: f64
  right64 :: f64
  top64 :: f64

record XY64 =
  x64 :: f64
  y64 :: f64

definition ul64 :: "pynum \<Rightarrow> pynum \<Rightarrow> int \<Rightarrow> Bbox64 \<Rightarrow> error + XY64" where
  "ul64 xtile ytile zoom pb =
     andthen (pow2_64 zoom) (\<lambda>n.
     andthen (fdiv (fsub (right64 pb) (left64 pb)) n) (\<lambda>tile_dx.
     andthen (fdiv (fsub (top64 pb) (bottom64 pb)) n) (\<lambda>tile_dy.
     andthen (to_f64 xtile) (\<lambda>xf.
     andthen (to_f64 ytile) (\<lambda>yf.
       Inr \<lparr>x64 = fadd (left64 pb) (fmul xf tile_dx),
            y64 = fsub (top64 pb) (fmul yf tile_dy)\<rparr>)))))"

definition bounds64 :: "pynum \<Rightarrow> pynum \<Rightarrow> int \<Rightarrow> Bbox64 \<Rightarrow> error + Bbox64" where
  "bounds64 xtile ytile zoom pb =
     andthen (ul64 xtile ytile zoom pb) (\<lambda>a.
     andthen (ul64 (add1_64 xtile) (add1_64 ytile) zoom pb) (\<lambda>b.
       Inr \<lparr>left64 = x64 a, bottom64 = y64 b, right64 = x64 b, top64 = y64 a\<rparr>))"

definition truncate_xy64 :: "f64 \<Rightarrow> f64 \<Rightarrow> Bbox64 \<Rightarrow> f64 \<times> f64" where
  "truncate_xy64 px py pb =
     (let px' = (if flt (right64 pb) px then right64 pb
                 else if flt px (left64 pb) then left64 pb else px);
          py' = (if flt (top64 pb) py then top64 pb
                 else if flt py (bottom64 pb) then bottom64 pb else py)
      in (px', py'))"

definition tile64' :: "f64 \<Rightarrow> f64 \<Rightarrow> int \<Rightarrow> Bbox64 \<Rightarrow> bool \<Rightarrow> error + f64 \<times> f64 \<times> int" where
  "tile64' px py zoom pb trunc =
     andthen (pow2_64 zoom) (\<lambda>n.
     andthen (fdiv (fsub (right64 pb) (left64 pb)) n) (\<lambda>tile_dx.
     andthen (fdiv (fsub (top64 pb) (bottom64 pb)) n) (\<lambda>tile_dy.
     andthen (fdiv (fsub px (left64 pb)) tile_dx) (\<lambda>xtile.
     andthen (fdiv (fsub (top64 pb) py) tile_dy) (\<lambda>ytile.
       Inr (xtile, ytile, zoom))))))"


text \<open>\<^verbatim>\<open>epsilon = 1.0e-9\<close>.\<close>

definition epsilon64 :: f64 where
  "epsilon64 = round64 (1 / 10 ^ 9)"

text \<open>A statement of a generator that may raise before it yields.\<close>

definition gen_try :: "error + 'a \<Rightarrow> ('a \<Rightarrow> 'b gen) \<Rightarrow> 'b gen" where
  "gen_try r body = (case r of Inl err \<Rightarrow> ([], Some err) | Inr v \<Rightarrow> body v)"

text \<open>\<^verbatim>\<open>if v % 1 < epsilon / 10: v = v - epsilon\<close>.\<close>

definition snap64 :: "f64 \<Rightarrow> error + f64" where
  "snap64 v = andthen (fdiv epsilon64 (Fin 10)) (\<lambda>bound.
                Inr (if flt (fmod1 v) bound then fsub v epsilon64 else v))"

text \<open>The body of the loop \<^verbatim>\<open>for z in zooms\<close>; \<^verbatim>\<open>max(left, w)\<close> is \<open>w\<close> when
  \<open>left < w\<close> and \<open>left\<close> otherwise, and likewise for the other three.\<close>

definition tiles_zoom64 ::
  "f64 \<Rightarrow> f64 \<Rightarrow> f64 \<Rightarrow> f64 \<Rightarrow> Bbox64 \<Rightarrow> int \<Rightarrow> (int, Bbox64) WMTSTile gen" where
  "tiles_zoom64 w s e n pb zoom =
     gen_try (tile64' w s zoom pb False) (\<lambda>(llx, lly, llz).
     gen_try (snap64 lly) (\<lambda>lly.
     gen_try (tile64' e n zoom pb False) (\<lambda>(urx, ury, urz).
     gen_try (snap64 urx) (\<lambda>urx.
       let llx = (if flt llx (Fin 0) then Fin 0 else llx);
           ury = (if flt ury (Fin 0) then Fin 0 else ury)
       in gen_try (ffloor llx) (\<lambda>illx.
          gen_try (ffloor urx) (\<lambda>iurx.
          gen_try (ffloor lly) (\<lambda>illy.
          gen_try (ffloor ury) (\<lambda>iury.
            tiles_range illx iurx illy iury zoom pb))))))))"

definition tiles64 ::
  "f64 \<Rightarrow> f64 \<Rightarrow> f64 \<Rightarrow> f64 \<Rightarrow> zooms \<Rightarrow> Bbox64 \<Rightarrow> bool \<Rightarrow> (int, Bbox64) WMTSTile gen" where
  "tiles64 west south east north zms pb trunc =
     (let (corners, bboxes) =
            (if trunc
             then ((truncate_xy64 west south pb, truncate_xy64 east north pb), None)
             else (((west, south), (east, north)), Some [(west, south, east, north)]))
      in case bboxes of
           None \<Rightarrow> ([], Some UnboundLocalError)
         | Some bbs \<Rightarrow>
             gen_for bbs (\<lambda>(w, s, e, n).
               let w = (if flt (left64 pb) w then w else left64 pb);
                   s = (if flt (bottom64 pb) s then s else bottom64 pb);
                   e = (if flt e (right64 pb) then e else right64 pb);
                   n = (if flt n (top64 pb) then n else top64 pb);
                   zs = (case zms of Zoom zoom \<Rightarrow> [zoom] | Zooms zs \<Rightarrow> zs)
               in gen_for zs (tiles_zoom64 w s e n pb)))"


definition tenths_bounds64 :: Bbox64 where
  "tenths_bounds64 = \<lparr>left64 = round64 (1 / 10), bottom64 = round64 (1 / 10),
                       right64 = round64 (7 / 10), top64 = round64 (7 / 10)\<rparr>"

section \<open>Properties\<close>

subsection \<open>Calls with four positional arguments\<close>

lemma parse_four:
  "parse_tile_arg [a, b, c, d] = Inr \<lparr>WMTSTile.x = a, y = b, z = c, provider_bounds = d\<rparr>"
  by (simp add: parse_tile_arg_def)

lemma unpack_bbox_val: "unpack_bounds (bbox_val pb) = Inr pb"
  by (simp add: bbox_val_def)

lemma ul_unpacked:
  assumes "as_num vx = Inr xr" and "as_num vy = Inr yr" and "unpack_bounds vb = Inr pb"
  shows "ul [vx, vy, PInt k, vb] =
           Inr \<lparr>XY.x = left pb + xr * (right pb - left pb) / 2 powi k,
                XY.y = Bbox.top pb - yr * (Bbox.top pb - bottom pb) / 2 powi k\<rparr>"
  using assms by (simp add: ul_def parse_four andthen_def)

lemma ul_numeric:
  assumes "as_num vx = Inr xr" and "as_num vy = Inr yr"
  shows "ul [vx, vy, PInt k, bbox_val pb] =
           Inr \<lparr>XY.x = left pb + xr * (right pb - left pb) / 2 powi k,
                XY.y = Bbox.top pb - yr * (Bbox.top pb - bottom pb) / 2 powi k\<rparr>"
  using assms unpack_bbox_val by (rule ul_unpacked)

lemma bounds_four:
  "bounds [PInt i, PInt j, PInt k, bbox_val pb] =
     Inr \<lparr>left = left pb + of_int i * (right pb - left pb) / 2 powi k,
          bottom = Bbox.top pb - of_int (j + 1) * (Bbox.top pb - bottom pb) / 2 powi k,
          right = left pb + of_int (i + 1) * (right pb - left pb) / 2 powi k,
          Bbox.top = Bbox.top pb - of_int j * (Bbox.top pb - bottom pb) / 2 powi k\<rparr>"
  by (simp add: bounds_def parse_four ul_numeric andthen_def)

lemma pow2_pos: "0 < (2::real) powi k"
  by (simp add: zero_less_power_int)

lemma next_index:
  "of_int (i + 1) * (d::real) / n = of_int i * d / n + d / n"
  by (simp add: algebra_simps add_divide_distrib)

text \<open>The fractional position of a grid corner is its index.\<close>

lemma tile'_corner:
  assumes "left pb \<noteq> right pb" and "bottom pb \<noteq> Bbox.top pb"
  shows "tile' (left pb + a * (right pb - left pb) / 2 powi k)
               (Bbox.top pb - b * (Bbox.top pb - bottom pb) / 2 powi k) k pb tr
         = Inr (a, b, k)"
  using assms pow2_pos [of k] by (simp add: tile'_def Let_def)

subsection \<open>Generators and the loop nest\<close>

lemma gen_for_single: "gen_for [a] body = body a"
  by (cases "body a") (auto split: option.splits)

lemma gen_for_yield: "gen_for as (\<lambda>a. (f a, None)) = (concat (map f as), None)"
  by (induction as) simp_all

lemma gen_for_raise: "fst (gen_for as (\<lambda>a. ([], Some err))) = []"
  by (cases as) simp_all

lemma gen_for_Cons_raise:
  "body a = (ys, Some err) \<Longrightarrow> gen_for (a # as) body = (ys, Some err)"
  by simp

lemma gen_for_Cons_go:
  "body a = (ys, None) \<Longrightarrow>
     gen_for (a # as) body = (ys @ fst (gen_for as body), snd (gen_for as body))"
  by (simp split: prod.splits)

lemma gen_for_prefix:
  "\<exists>m\<le>length as. fst (gen_for as body) = concat (map (\<lambda>a. fst (body a)) (take m as)) \<and>
                   (snd (gen_for as body) = None \<longrightarrow> m = length as)"
proof (induction as)
  case Nil
  then show ?case by simp
next
  case (Cons a as)
  obtain ys r where ba: "body a = (ys, r)"
    by (cases "body a")
  show ?case
  proof (cases r)
    case (Some err)
    have run: "gen_for (a # as) body = (ys, Some err)"
      by (rule gen_for_Cons_raise) (simp add: ba Some)
    have len: "Suc 0 \<le> length (a # as)"
      by simp
    have yields: "fst (gen_for (a # as) body)
                    = concat (map (\<lambda>a. fst (body a)) (take (Suc 0) (a # as)))"
      unfolding run by (simp add: ba)
    have ended: "snd (gen_for (a # as) body) = None \<longrightarrow> Suc 0 = length (a # as)"
      unfolding run by simp
    show ?thesis
    proof (intro exI conjI)
      show "Suc 0 \<le> length (a # as)" by (fact len)
      show "fst (gen_for (a # as) body)
              = concat (map (\<lambda>a. fst (body a)) (take (Suc 0) (a # as)))" by (fact yields)
      show "snd (gen_for (a # as) body) = None \<longrightarrow> Suc 0 = length (a # as)"
        by (fact ended)
    qed
  next
    case None
    from Cons.IH obtain m where m: "m \<le> length as"
      "fst (gen_for as body) = concat (map (\<lambda>a. fst (body a)) (take m as))"
      "snd (gen_for as body) = None \<longrightarrow> m = length as"
      by (elim exE conjE)
    have run: "gen_for (a # as) body = (ys @ fst (gen_for as body), snd (gen_for as body))"
      by (rule gen_for_Cons_go) (simp add: ba None)
    have len: "Suc m \<le> length (a # as)"
      using m(1) by simp
    have yields: "fst (gen_for (a # as) body)
                    = concat (map (\<lambda>a. fst (body a)) (take (Suc m) (a # as)))"
      unfolding run by (simp add: ba m(2))
    have ended: "snd (gen_for (a # as) body) = None \<longrightarrow> Suc m = length (a # as)"
      unfolding run using m(3) by simp
    show ?thesis
    proof (intro exI conjI)
      show "Suc m \<le> length (a # as)" by (fact len)
      show "fst (gen_for (a # as) body)
              = concat (map (\<lambda>a. fst (body a)) (take (Suc m) (a # as)))" by (fact yields)
      show "snd (gen_for (a # as) body) = None \<longrightarrow> Suc m = length (a # as)"
        by (fact ended)
    qed
  qed
qed

lemma grid_column_major:
  assumes "sorted_wrt (<) is" and "sorted_wrt (<) js"
  shows "column_major
           (concat (map (\<lambda>i. map (\<lambda>j. \<lparr>WMTSTile.x = i, y = j, z = k, provider_bounds = pb\<rparr>) js) is))"
  using assms(1)
proof (induction "is")
  case Nil
  then show ?case by (simp add: column_major_def)
next
  case (Cons i "is")
  have col: "column_major (map (\<lambda>j. \<lparr>WMTSTile.x = i, y = j, z = k, provider_bounds = pb\<rparr>) js)"
    using assms(2) by (simp add: column_major_def sorted_wrt_map)
  from Cons show ?case
    using col by (auto simp: column_major_def sorted_wrt_append)
qed

lemma gen_for_rows:
  "gen_for js (\<lambda>j. ([\<lparr>WMTSTile.x = i, y = j, z = k, provider_bounds = pb\<rparr>], None))
     = (map (\<lambda>j. \<lparr>WMTSTile.x = i, y = j, z = k, provider_bounds = pb\<rparr>) js, None)"
  by (induction js) simp_all

text \<open>The loops at a zoom that is not negative: the grid of the two ranges.\<close>

lemma tiles_range_grid:
  assumes "0 \<le> k"
  shows "tiles_range llx urx lly ury k pb =
           (concat (map (\<lambda>i. map (\<lambda>j. \<lparr>WMTSTile.x = i, y = j, z = k, provider_bounds = pb\<rparr>)
                                  [ury..min (lly + 1) (2 ^ nat k) - 1])
                        [llx..min (urx + 1) (2 ^ nat k) - 1]), None)"
  using assms by (simp add: tiles_range_def range_stop_def py_range_def gen_for_rows gen_for_yield)

lemma tiles_range_column_major: "column_major (fst (tiles_range llx urx lly ury k pb))"
proof (cases "range_stop (urx + 1) k")
  case (Inl err)
  then show ?thesis
    by (simp add: tiles_range_def column_major_def)
next
  case xstop: (Inr xstop)
  show ?thesis
  proof (cases "range_stop (lly + 1) k")
    case (Inl err)
    then show ?thesis
      using xstop by (simp add: tiles_range_def gen_for_raise column_major_def)
  next
    case (Inr ystop)
    then show ?thesis
      using xstop
      by (simp add: tiles_range_def gen_for_rows gen_for_yield py_range_def grid_column_major)
  qed
qed

subsection \<open>The run of \<^verbatim>\<open>tiles\<close>\<close>

lemma tiles_zoom_column_major: "column_major (fst (tiles_zoom w s e n pb k))"
proof (cases "tile' w s k pb False")
  case (Inl err)
  then show ?thesis
    by (simp add: tiles_zoom_def column_major_def)
next
  case ll: (Inr ll)
  show ?thesis
  proof (cases "tile' e n k pb False")
    case (Inl err)
    then show ?thesis
      using ll by (simp add: tiles_zoom_def column_major_def split: prod.splits)
  next
    case (Inr ur)
    then show ?thesis
      using ll
      by (simp only: tiles_zoom_def Let_def sum.case prod.case tiles_range_column_major
            split: prod.splits) simp
  qed
qed

lemma tiles_single_zoom:
  "tiles west south east north (Zoom k) pb False =
     tiles_zoom (max (left pb) west) (max (bottom pb) south)
                (min (right pb) east) (min (Bbox.top pb) north) pb k"
  by (simp add: tiles_def gen_for_single del: gen_for.simps)

lemma tiles_zoom_list:
  "tiles west south east north (Zooms zs) pb False =
     gen_for zs (tiles_zoom (max (left pb) west) (max (bottom pb) south)
                (min (right pb) east) (min (Bbox.top pb) north) pb)"
  by (simp add: tiles_def gen_for_single del: gen_for.simps)

lemma tiles_truncate_unbound:
  "tiles west south east north zms pb True = ([], Some UnboundLocalError)"
  by (simp add: tiles_def)

subsection \<open>Boundary snapping\<close>

lemma floor_nudged: "\<lfloor>of_int m - epsilon\<rfloor> = m - 1"
  by (rule floor_unique) (simp_all add: epsilon_def)

lemma mod1_of_int: "mod1 (of_int m) = 0"
  by (simp add: mod1_def)

lemma epsilon_pos: "0 < epsilon"
  by (simp add: epsilon_def)


subsection \<open>Single tiles\<close>


text \<open>A clamped box whose corners are the grid corners of the tile \<open>(i, j)\<close>.\<close>

lemma tiles_zoom_integral:
  assumes ll: "tile' w s k pb False = Inr (of_int i, of_int (j + 1), k)"
    and ur: "tile' e n k pb False = Inr (of_int (i + 1), of_int j, k)"
    and k: "0 \<le> k" and i: "0 \<le> i" "i < 2 ^ nat k" and j: "0 \<le> j" "j < 2 ^ nat k"
  shows "tiles_zoom w s e n pb k = ([\<lparr>WMTSTile.x = i, y = j, z = k, provider_bounds = pb\<rparr>], None)"
proof -
  have "tiles_zoom w s e n pb k = tiles_range i i j j k pb"
    using i(1) j(1) epsilon_pos
    by (simp add: tiles_zoom_def ll ur Let_def mod1_of_int floor_nudged
          del: of_int_add)
  also have "\<dots> = ([\<lparr>WMTSTile.x = i, y = j, z = k, provider_bounds = pb\<rparr>], None)"
    using i(2) j(2) by (simp add: tiles_range_grid [OF k] min_def)
  finally show ?thesis .
qed


lemma bounds_tile_val:
  "bounds [tile_val \<lparr>WMTSTile.x = i, y = j, z = k, provider_bounds = pb\<rparr>]
     = bounds [PInt i, PInt j, PInt k, bbox_val pb]"
  by (simp add: bounds_def parse_tile_arg_def tile_val_def)

text \<open>A multiple of the tile size that stays within the extent.\<close>

lemma step_bounds:
  assumes "0 < d" and "0 \<le> k" and "0 \<le> m" and "m \<le> 2 ^ nat k"
  shows "0 \<le> of_int m * d / 2 powi k" and "of_int m * d / 2 powi k \<le> (d::real)"
proof -
  have n: "(2::real) powi k = 2 ^ nat k"
    using assms(2) by (simp add: power_int_def)
  have "real_of_int m \<le> 2 ^ nat k"
    using assms(4) by (metis of_int_le_iff of_int_numeral of_int_power)
  then have "of_int m * d \<le> 2 ^ nat k * d"
    using assms(1) by simp
  then show "of_int m * d / 2 powi k \<le> d"
    unfolding n by (simp add: divide_le_eq mult.commute)
  show "0 \<le> of_int m * d / 2 powi k"
    using assms(1,3) pow2_pos [of k] by simp
qed

text \<open>In exact arithmetic, \<^verbatim>\<open>tiles\<close> on the box of a tile yields that tile and no other.\<close>

lemma tiles_of_tile_bounds_exact:
  assumes "left pb < right pb" and "bottom pb < Bbox.top pb"
    and "0 \<le> k" and "0 \<le> i" and "i < 2 ^ nat k" and "0 \<le> j" and "j < 2 ^ nat k"
  shows "\<exists>bb. bounds [tile_val \<lparr>WMTSTile.x = i, y = j, z = k, provider_bounds = pb\<rparr>] = Inr bb \<and>
              tiles (left bb) (bottom bb) (right bb) (Bbox.top bb) (Zoom k) pb False
                = ([\<lparr>WMTSTile.x = i, y = j, z = k, provider_bounds = pb\<rparr>], None)"
proof -
  define w where "w = left pb + of_int i * (right pb - left pb) / 2 powi k"
  define s where "s = Bbox.top pb - of_int (j + 1) * (Bbox.top pb - bottom pb) / 2 powi k"
  define e where "e = left pb + of_int (i + 1) * (right pb - left pb) / 2 powi k"
  define n where "n = Bbox.top pb - of_int j * (Bbox.top pb - bottom pb) / 2 powi k"
  have ne: "left pb \<noteq> right pb" "bottom pb \<noteq> Bbox.top pb"
    using assms(1,2) by simp_all
  have dx: "0 < right pb - left pb" and dy: "0 < Bbox.top pb - bottom pb"
    using assms(1,2) by simp_all
  have box: "bounds [tile_val \<lparr>WMTSTile.x = i, y = j, z = k, provider_bounds = pb\<rparr>]
               = Inr \<lparr>left = w, bottom = s, right = e, Bbox.top = n\<rparr>"
    by (simp only: bounds_tile_val bounds_four w_def s_def e_def n_def)
  have "left pb \<le> w"
    unfolding w_def using step_bounds(1) [OF dx assms(3) assms(4)] assms(5) by simp
  then have cw: "max (left pb) w = w"
    by simp
  have "bottom pb \<le> s"
    unfolding s_def using step_bounds(2) [OF dy assms(3), of "j + 1"] assms(6,7) by simp
  then have cs: "max (bottom pb) s = s"
    by simp
  have "e \<le> right pb"
    unfolding e_def using step_bounds(2) [OF dx assms(3), of "i + 1"] assms(4,5) by simp
  then have ce: "min (right pb) e = e"
    by simp
  have "n \<le> Bbox.top pb"
    unfolding n_def using step_bounds(1) [OF dy assms(3) assms(6)] assms(7) by simp
  then have cn: "min (Bbox.top pb) n = n"
    by simp
  have ll: "tile' w s k pb False = Inr (of_int i, of_int (j + 1), k)"
    unfolding w_def s_def by (rule tile'_corner [OF ne])
  have ur: "tile' e n k pb False = Inr (of_int (i + 1), of_int j, k)"
    unfolding e_def n_def by (rule tile'_corner [OF ne])
  have "tiles w s e n (Zoom k) pb False
          = ([\<lparr>WMTSTile.x = i, y = j, z = k, provider_bounds = pb\<rparr>], None)"
    unfolding tiles_single_zoom cw cs ce cn
    by (rule tiles_zoom_integral [OF ll ur assms(3-7)])
  with box show ?thesis
    by simp
qed

subsection \<open>Range of doubles\<close>







subsection \<open>The claims\<close>

text \<open>
  C1. The claim: with \<^verbatim>\<open>truncate=True\<close>, \<^verbatim>\<open>tiles\<close> clamps the two corners of a query
  box that extends beyond the provider bounds and yields its tiles, all with indices in
  \<open>[0, 2^z)\<close>, raising nothing. The source: at the query box \<open>(-200, -200, 200, 200)\<close>,
  zoom \<open>0\<close> and provider bounds \<open>(-100, -100, 100, 100)\<close>, the run of \<^verbatim>\<open>tiles\<close> with
  \<^verbatim>\<open>truncate=True\<close> yields no tile and ends with \<^verbatim>\<open>UnboundLocalError\<close>.
\<close>

theorem tiles_truncate_raises:
  "tiles (- 200) (- 200) 200 200 (Zoom 0) example_bounds True = ([], Some UnboundLocalError)"
  by (simp add: tiles_def)

text \<open>
  C2. The claim: \<^verbatim>\<open>tiles\<close> on the four coordinates of \<^verbatim>\<open>bounds(t)\<close>, at the zoom of
  \<open>t\<close>, yields the tile \<open>t\<close> and no other. The source, in double arithmetic: with provider
  bounds \<^verbatim>\<open>Bbox(0.1, 0.1, 0.7, 0.7)\<close> and the tile \<open>(0, 1, 3)\<close>, \<^verbatim>\<open>bounds\<close> returns the box
  below, and \<^verbatim>\<open>tiles\<close> on it yields two tiles, \<open>(0, 0, 3)\<close> and \<open>(0, 1, 3)\<close>.
\<close>

theorem tiles64_own_bounds:
  "bounds64 (PyInt 0) (PyInt 1) 3 tenths_bounds64
     = Inr \<lparr>left64 = Fin (3602879701896397 / 36028797018963968),
            bottom64 = Fin (4953959590107545 / 9007199254740992),
            right64 = Fin (3152519739159347 / 18014398509481984),
            top64 = Fin (5 / 8)\<rparr> \<and>
   tiles64 (Fin (3602879701896397 / 36028797018963968)) (Fin (4953959590107545 / 9007199254740992))
           (Fin (3152519739159347 / 18014398509481984)) (Fin (5 / 8)) (Zoom 3) tenths_bounds64 False
     = ([\<lparr>WMTSTile.x = 0, y = 0, z = 3, provider_bounds = tenths_bounds64\<rparr>,
         \<lparr>WMTSTile.x = 0, y = 1, z = 3, provider_bounds = tenths_bounds64\<rparr>], None)"
  by code_simp

text \<open>
  C3, as the claim states it, fails: the four tiles of the whole extent at zoom \<open>1\<close> are
  not emitted in row-major order.
\<close>

theorem tiles_row_major_counterexample:
  "\<not> row_major (fst (tiles (- 100) (- 100) 100 100 (Zoom 1) example_bounds False))"
  by (simp add: tiles_def tiles_zoom_def tiles_range_def tile'_def epsilon_def mod1_def range_stop_def
        py_range_def example_bounds_def Let_def upto_rec1 row_major_def)

text \<open>
  C3, amended. Within one zoom the tiles are emitted in column-major order: column by
  column with \<open>x\<close> ascending, and \<open>y\<close> ascending within each column. With a list of
  zooms, the run is the runs of the single zooms one after the other, in the order of the
  list; it covers the whole list when no exception ends it.
\<close>

theorem tiles_order:
  "column_major (fst (tiles west south east north (Zoom k) pb trunc)) \<and>
   (\<exists>m\<le>length zs.
      fst (tiles west south east north (Zooms zs) pb trunc)
        = concat (map (\<lambda>k. fst (tiles west south east north (Zoom k) pb trunc)) (take m zs)) \<and>
      (snd (tiles west south east north (Zooms zs) pb trunc) = None \<longrightarrow> m = length zs))"
proof (cases trunc)
  case True
  have "column_major []"
    by (simp add: column_major_def)
  then have first: "column_major (fst (tiles west south east north (Zoom k) pb trunc))"
    using True by (simp add: tiles_truncate_unbound)
  have "0 \<le> length zs \<and>
        fst (tiles west south east north (Zooms zs) pb trunc)
          = concat (map (\<lambda>k. fst (tiles west south east north (Zoom k) pb trunc)) (take 0 zs)) \<and>
        (snd (tiles west south east north (Zooms zs) pb trunc) = None \<longrightarrow> 0 = length zs)"
    using True by (simp add: tiles_truncate_unbound)
  then have "\<exists>m\<le>length zs.
      fst (tiles west south east north (Zooms zs) pb trunc)
        = concat (map (\<lambda>k. fst (tiles west south east north (Zoom k) pb trunc)) (take m zs)) \<and>
      (snd (tiles west south east north (Zooms zs) pb trunc) = None \<longrightarrow> m = length zs)"
    by (rule exI)
  with first show ?thesis
    by (rule conjI)
next
  case False
  have first: "column_major (fst (tiles west south east north (Zoom k) pb trunc))"
    using False by (simp add: tiles_single_zoom tiles_zoom_column_major)
  have "\<exists>m\<le>length zs.
      fst (tiles west south east north (Zooms zs) pb False)
        = concat (map (\<lambda>k. fst (tiles west south east north (Zoom k) pb False)) (take m zs)) \<and>
      (snd (tiles west south east north (Zooms zs) pb False) = None \<longrightarrow> m = length zs)"
    unfolding tiles_single_zoom tiles_zoom_list by (rule gen_for_prefix)
  then show ?thesis
    using first False by simp
qed

theorem tiles_order_witness:
  "column_major (fst (tiles (- 100) (- 100) 100 100 (Zoom 1) example_bounds False)) \<and>
   snd (tiles (- 100) (- 100) 100 100 (Zooms [0, 1]) example_bounds False) = None \<and>
   fst (tiles (- 100) (- 100) 100 100 (Zooms [0, 1]) example_bounds False)
     = concat (map (\<lambda>k. fst (tiles (- 100) (- 100) 100 100 (Zoom k) example_bounds False)) [0, 1])"
proof -
  have ended: "snd (tiles (- 100) (- 100) 100 100 (Zooms [0, 1]) example_bounds False) = None"
    by code_simp
  from tiles_order [of "- 100" "- 100" 100 100 1 example_bounds False "[0, 1]"]
  obtain m where col: "column_major (fst (tiles (- 100) (- 100) 100 100 (Zoom 1) example_bounds False))"
    and m: "fst (tiles (- 100) (- 100) 100 100 (Zooms [0, 1]) example_bounds False)
        = concat (map (\<lambda>k. fst (tiles (- 100) (- 100) 100 100 (Zoom k) example_bounds False)) (take m [0, 1]))"
      "snd (tiles (- 100) (- 100) 100 100 (Zooms [0, 1]) example_bounds False) = None \<longrightarrow> m = length [0 :: int, 1]"
    by (elim exE conjE)
  from m(2) ended have "m = 2"
    by simp
  with m(1) have "fst (tiles (- 100) (- 100) 100 100 (Zooms [0, 1]) example_bounds False)
     = concat (map (\<lambda>k. fst (tiles (- 100) (- 100) 100 100 (Zoom k) example_bounds False)) [0, 1])"
    by simp
  with col ended show ?thesis
    by (intro conjI)
qed









text \<open>
  C7, as the claim states it, fails: a single argument that is a number does not resolve
  to four components, and the parser raises \<^verbatim>\<open>TypeError\<close>, not
  \<^verbatim>\<open>TileArgParsingError\<close>.
\<close>

theorem parse_single_number_counterexample:
  "parse_tile_arg [PInt 5] = Inl TypeError"
  by (simp add: parse_tile_arg_def)

text \<open>
  C7, amended. The parser raises \<^verbatim>\<open>TileArgParsingError\<close> exactly when it is given a
  number of positional arguments other than one and four, or one argument that is a
  sequence of a length other than four; it raises \<^verbatim>\<open>TypeError\<close> exactly when it is
  given one argument that is a number; four positional arguments, and one argument that is
  a sequence of four elements, give the tile of these four components.
\<close>

theorem parse_tile_arg_shape:
  "(parse_tile_arg args = Inl TileArgParsingError \<longleftrightarrow>
      (length args \<noteq> 1 \<and> length args \<noteq> 4) \<or> (\<exists>vs. args = [PSeq vs] \<and> length vs \<noteq> 4)) \<and>
   (parse_tile_arg args = Inl TypeError \<longleftrightarrow>
      (\<exists>i. args = [PInt i]) \<or> (\<exists>r. args = [PFloat r])) \<and>
   (length args = 4 \<longrightarrow>
      parse_tile_arg args =
        Inr \<lparr>WMTSTile.x = args ! 0, y = args ! 1, z = args ! 2, provider_bounds = args ! 3\<rparr>) \<and>
   (length vs = 4 \<longrightarrow>
      parse_tile_arg [PSeq vs] =
        Inr \<lparr>WMTSTile.x = vs ! 0, y = vs ! 1, z = vs ! 2, provider_bounds = vs ! 3\<rparr>)"
proof (cases "length args = 1")
  case True
  then obtain v where args: "args = [v]"
    by (cases args) auto
  show ?thesis
    unfolding args by (cases v) (auto simp: parse_tile_arg_def)
next
  case False
  then show ?thesis
    by (auto simp: parse_tile_arg_def)
qed

theorem parse_tile_arg_shape_witness:
  "parse_tile_arg [PInt 1, PInt 2] = Inl TileArgParsingError \<and>
   parse_tile_arg [PInt 1, PInt 2, PInt 3, bbox_val example_bounds] =
     Inr \<lparr>WMTSTile.x = PInt 1, y = PInt 2, z = PInt 3, provider_bounds = bbox_val example_bounds\<rparr> \<and>
   parse_tile_arg [PSeq [PInt 1, PInt 2, PInt 3, bbox_val example_bounds]] =
     Inr \<lparr>WMTSTile.x = PInt 1, y = PInt 2, z = PInt 3, provider_bounds = bbox_val example_bounds\<rparr>"
  using parse_tile_arg_shape [of "[PInt 1, PInt 2]" "[PInt 1, PInt 2, PInt 3, bbox_val example_bounds]"]
        parse_tile_arg_shape [of "[PInt 1, PInt 2, PInt 3, bbox_val example_bounds]" "[]"]
  by simp




text \<open>
  C9. The tile returned by \<^verbatim>\<open>tile\<close> is the same with \<^verbatim>\<open>truncate=True\<close> and with
  \<^verbatim>\<open>truncate=False\<close>, whatever the point, the zoom and the provider bounds are: the flag
  is accepted and has no effect.
\<close>

theorem tile_ignores_truncate:
  "tile px py zoom pb True = tile px py zoom pb False"
  by (simp add: tile_def tile'_def)

text \<open>
  C10. \<^verbatim>\<open>bounds\<close> preserves well-formedness: for well-formed provider bounds
  (\<open>left < right\<close>, \<open>bottom < top\<close>), a zoom \<open>k \<ge> 0\<close> and integer indices, the call
  returns a box with \<open>left < right\<close> and \<open>bottom < top\<close> (in exact arithmetic).
\<close>

theorem bounds_well_formed:
  assumes "left pb < right pb" and "bottom pb < Bbox.top pb" and "0 \<le> k"
  shows "\<exists>bb. bounds [PInt i, PInt j, PInt k, bbox_val pb] = Inr bb \<and>
              left bb < right bb \<and> bottom bb < Bbox.top bb"
proof -
  have dx: "0 < (right pb - left pb) / 2 powi k"
    using assms(1) pow2_pos [of k] by simp
  have dy: "0 < (Bbox.top pb - bottom pb) / 2 powi k"
    using assms(2) pow2_pos [of k] by simp
  show ?thesis
    unfolding bounds_four next_index using dx dy by simp
qed

theorem bounds_well_formed_witness:
  "\<exists>bb. bounds [PInt 5, PInt (- 2), PInt 3, bbox_val example_bounds] = Inr bb \<and>
        left bb < right bb \<and> bottom bb < Bbox.top bb"
  by (rule bounds_well_formed) (simp_all add: example_bounds_def)

end
